theory Spec2Isabelle
  imports Complex_Main "HOL-Library.Word" "HOL-Library.Sublist"
begin

section \<open>JavaScript values\<close>

text \<open>
  A JavaScript string is a sequence of UTF-16 code units, so \<open>charCodeAt\<close> reads one
  element and \<open>substring(1)\<close> drops one. ASCII literals of the source are written
  \<open>js ''...''\<close>. Values the loader only passes around (thrown errors, module exports)
  are opaque; \<open>TypeError\<close> is what the runtime throws when a property of \<open>undefined\<close> is
  read or a value that is no function is called. A call ends in \<open>Returns\<close>, or in
  \<open>Throws e\<close> when the exception \<open>e\<close> leaves it.
\<close>

type_synonym jsstring = "16 word list"

definition js :: "string \<Rightarrow> jsstring" where
  "js s = map of_char s"

datatype jsval = JSVal nat | TypeError

datatype completion = Returns | Throws jsval

section \<open>OnlyOnceScriptLoader\<close>

text \<open>
  A callback handed to \<open>load\<close> is a closure of the caller. What the loader can observe
  of it is that it was invoked, the calls of \<open>load\<close> it makes on this same loader while
  it runs, and how it ends: \<open>Closure i reqs t\<close> has the identity \<open>i\<close>, issues the
  requests \<open>reqs\<close> in order when invoked, and then returns (\<open>t = None\<close>) or throws
  (\<open>t = Some e\<close>). It does not catch what a call of \<open>load\<close> throws.
\<close>

datatype closure =
  Closure (cb_id: nat) (cb_loads: "(jsstring \<times> closure \<times> closure) list")
    (cb_throws: "jsval option")

record IScriptCallbacks =
  callback :: closure
  errorback :: closure

datatype event =
    ActualLoad jsstring
  | CallbackCalled nat
  | ErrorbackCalled nat jsval

text \<open>
  \<open>callbackMap\<close> is an object literal used as a dictionary. Its own properties are the
  entries; its prototype is \<open>Object.prototype\<close> (\<open>proto = None\<close>) until an assignment to
  the key \<open>__proto__\<close> replaces it by the assigned array, without creating an own
  property. The method \<open>hasOwnProperty\<close> is found on the prototype chain unless an own
  property of that name hides it; the own property is then an array, and calling it
  throws. A read finds an own property, or for \<open>__proto__\<close> the prototype, or what the
  prototype chain holds under that name. The built-in prototypes are not part of the
  repository: \<open>chain p k\<close> says that the chain (with the prototype \<open>p\<close>) holds under
  \<open>k\<close> a value whose \<open>length\<close> ends the loop at once (\<open>NoElements\<close>); otherwise nothing
  is found, or a value with a positive \<open>length\<close> and no elements, and reading
  \<open>.length\<close> or \<open>[i].callback\<close> throws (\<open>Unusable\<close>).
\<close>

record ObjectLiteral =
  own :: "jsstring \<rightharpoonup> IScriptCallbacks list"
  proto :: "IScriptCallbacks list option"

datatype property = Array "IScriptCallbacks list" | NoElements | Unusable

type_synonym prototypes = "IScriptCallbacks list option \<Rightarrow> jsstring \<Rightarrow> bool"

definition hasOwnProperty :: "ObjectLiteral \<Rightarrow> jsstring \<Rightarrow> jsval + bool" where
  "hasOwnProperty obj k =
     (if own obj (js ''hasOwnProperty'') \<noteq> None then Inl TypeError else Inr (own obj k \<noteq> None))"

definition assign :: "ObjectLiteral \<Rightarrow> jsstring \<Rightarrow> IScriptCallbacks list \<Rightarrow> ObjectLiteral" where
  "assign obj k arr =
     (if k = js ''__proto__'' then obj\<lparr>proto := Some arr\<rparr> else obj\<lparr>own := (own obj)(k \<mapsto> arr)\<rparr>)"

definition push :: "ObjectLiteral \<Rightarrow> jsstring \<Rightarrow> IScriptCallbacks \<Rightarrow> ObjectLiteral" where
  "push obj k x =
     (case own obj k of Some arr \<Rightarrow> obj\<lparr>own := (own obj)(k \<mapsto> arr @ [x])\<rparr> | None \<Rightarrow> obj)"

definition get :: "prototypes \<Rightarrow> ObjectLiteral \<Rightarrow> jsstring \<Rightarrow> property" where
  "get chain obj k =
     (case own obj k of
        Some arr \<Rightarrow> Array arr
      | None \<Rightarrow>
          if k = js ''__proto__'' then (case proto obj of Some arr \<Rightarrow> Array arr | None \<Rightarrow> NoElements)
          else if chain (proto obj) k then NoElements else Unusable)"

definition delete :: "ObjectLiteral \<Rightarrow> jsstring \<Rightarrow> ObjectLiteral" where
  "delete obj k = obj\<lparr>own := (own obj)(k := None)\<rparr>"

text \<open>
  The wrapped loader is seen through its interface. \<open>actualScriptLoader this src\<close> is
  what its \<open>load\<close> does with the two handlers before it returns: nothing (\<open>Later\<close>: the
  completion arrives as a later call of \<open>triggerCallback\<close> or \<open>triggerErrorback\<close>), or one
  call of the success handler, or one of the failure handler; what a handler throws leaves
  \<open>load\<close>. The call itself is the event \<open>ActualLoad\<close>.
\<close>

datatype answer = Later | Succeeds | Fails jsval

record OnlyOnceScriptLoader =
  actualScriptLoader :: "jsstring \<Rightarrow> answer"
  callbackMap :: ObjectLiteral
  events :: "event list"

definition OnlyOnce_new :: "(jsstring \<Rightarrow> answer) \<Rightarrow> OnlyOnceScriptLoader" where
  "OnlyOnce_new actual =
     \<lparr>actualScriptLoader = actual, callbackMap = \<lparr>own = Map.empty, proto = None\<rparr>, events = []\<rparr>"

text \<open>
  A synchronous completion runs the callbacks inside \<open>load\<close>, and a callback may call
  \<open>load\<close> again. The functions below take the way closures are invoked as the argument
  \<open>call\<close>; \<open>invoke\<close> closes the recursion with a bound \<open>n\<close> on the nesting of
  invocations, and the result \<open>None\<close> says that the bound was reached.
\<close>

type_synonym outcome = "(OnlyOnceScriptLoader \<times> completion) option"

type_synonym invoker = "closure \<Rightarrow> event \<Rightarrow> OnlyOnceScriptLoader \<Rightarrow> outcome"

fun callbacks_loop :: "invoker \<Rightarrow> IScriptCallbacks list \<Rightarrow> OnlyOnceScriptLoader \<Rightarrow> outcome" where
  "callbacks_loop call [] this = Some (this, Returns)"
| "callbacks_loop call (c # cs) this =
     (case call (callback c) (CallbackCalled (cb_id (callback c))) this of
        None \<Rightarrow> None
      | Some (s, Returns) \<Rightarrow> callbacks_loop call cs s
      | Some (s, Throws e) \<Rightarrow> Some (s, Throws e))"

fun errorbacks_loop ::
  "invoker \<Rightarrow> jsval \<Rightarrow> IScriptCallbacks list \<Rightarrow> OnlyOnceScriptLoader \<Rightarrow> outcome" where
  "errorbacks_loop call err [] this = Some (this, Returns)"
| "errorbacks_loop call err (c # cs) this =
     (case call (errorback c) (ErrorbackCalled (cb_id (errorback c)) err) this of
        None \<Rightarrow> None
      | Some (s, Returns) \<Rightarrow> errorbacks_loop call err cs s
      | Some (s, Throws e) \<Rightarrow> Some (s, Throws e))"

definition triggerCallback_with ::
  "prototypes \<Rightarrow> invoker \<Rightarrow> OnlyOnceScriptLoader \<Rightarrow> jsstring \<Rightarrow> outcome" where
  "triggerCallback_with chain call this scriptSrc =
     (let scriptCallbacks = get chain (callbackMap this) scriptSrc;
          this' = this\<lparr>callbackMap := delete (callbackMap this) scriptSrc\<rparr>
      in case scriptCallbacks of
           Array arr \<Rightarrow> callbacks_loop call arr this'
         | NoElements \<Rightarrow> Some (this', Returns)
         | Unusable \<Rightarrow> Some (this', Throws TypeError))"

definition triggerErrorback_with ::
  "prototypes \<Rightarrow> invoker \<Rightarrow> OnlyOnceScriptLoader \<Rightarrow> jsstring \<Rightarrow> jsval \<Rightarrow> outcome" where
  "triggerErrorback_with chain call this scriptSrc err =
     (let scriptCallbacks = get chain (callbackMap this) scriptSrc;
          this' = this\<lparr>callbackMap := delete (callbackMap this) scriptSrc\<rparr>
      in case scriptCallbacks of
           Array arr \<Rightarrow> errorbacks_loop call err arr this'
         | NoElements \<Rightarrow> Some (this', Returns)
         | Unusable \<Rightarrow> Some (this', Throws TypeError))"

definition load_with ::
  "prototypes \<Rightarrow> invoker \<Rightarrow> OnlyOnceScriptLoader \<Rightarrow> jsstring \<Rightarrow> closure \<Rightarrow> closure \<Rightarrow> outcome" where
  "load_with chain call this scriptSrc cb eb =
     (let scriptCallbacks = \<lparr>callback = cb, errorback = eb\<rparr> in
      case hasOwnProperty (callbackMap this) scriptSrc of
        Inl e \<Rightarrow> Some (this, Throws e)
      | Inr True \<Rightarrow>
          Some (this\<lparr>callbackMap := push (callbackMap this) scriptSrc scriptCallbacks\<rparr>, Returns)
      | Inr False \<Rightarrow>
          (let this' = this\<lparr>callbackMap := assign (callbackMap this) scriptSrc [scriptCallbacks],
                              events := events this @ [ActualLoad scriptSrc]\<rparr>
           in case actualScriptLoader this scriptSrc of
                Later \<Rightarrow> Some (this', Returns)
              | Succeeds \<Rightarrow> triggerCallback_with chain call this' scriptSrc
              | Fails err \<Rightarrow> triggerErrorback_with chain call this' scriptSrc err))"

text \<open>A sequence of \<open>load\<close> calls, in order, up to the first that throws: the body of a closure.\<close>

fun requests_loop ::
  "(OnlyOnceScriptLoader \<Rightarrow> jsstring \<Rightarrow> closure \<Rightarrow> closure \<Rightarrow> outcome) \<Rightarrow>
     (jsstring \<times> closure \<times> closure) list \<Rightarrow> OnlyOnceScriptLoader \<Rightarrow> outcome" where
  "requests_loop ld [] this = Some (this, Returns)"
| "requests_loop ld ((src, cb, eb) # reqs) this =
     (case ld this src cb eb of
        None \<Rightarrow> None
      | Some (s, Returns) \<Rightarrow> requests_loop ld reqs s
      | Some (s, Throws e) \<Rightarrow> Some (s, Throws e))"

primrec invoke :: "prototypes \<Rightarrow> nat \<Rightarrow> closure \<Rightarrow> event \<Rightarrow> OnlyOnceScriptLoader \<Rightarrow> outcome" where
  "invoke chain 0 c ev this = None"
| "invoke chain (Suc n) c ev this =
     (case requests_loop (load_with chain (invoke chain n)) (cb_loads c)
             (this\<lparr>events := events this @ [ev]\<rparr>) of
        None \<Rightarrow> None
      | Some (s, Returns) \<Rightarrow>
          Some (s, case cb_throws c of None \<Rightarrow> Returns | Some e \<Rightarrow> Throws e)
      | Some (s, Throws e) \<Rightarrow> Some (s, Throws e))"

definition OnlyOnce_load ::
  "prototypes \<Rightarrow> nat \<Rightarrow> OnlyOnceScriptLoader \<Rightarrow> jsstring \<Rightarrow> closure \<Rightarrow> closure \<Rightarrow> outcome" where
  "OnlyOnce_load chain n = load_with chain (invoke chain n)"

definition triggerCallback ::
  "prototypes \<Rightarrow> nat \<Rightarrow> OnlyOnceScriptLoader \<Rightarrow> jsstring \<Rightarrow> outcome" where
  "triggerCallback chain n = triggerCallback_with chain (invoke chain n)"

definition triggerErrorback ::
  "prototypes \<Rightarrow> nat \<Rightarrow> OnlyOnceScriptLoader \<Rightarrow> jsstring \<Rightarrow> jsval \<Rightarrow> outcome" where
  "triggerErrorback chain n = triggerErrorback_with chain (invoke chain n)"




definition requests_for ::
  "jsstring \<Rightarrow> (jsstring \<times> closure \<times> closure) list \<Rightarrow> IScriptCallbacks list" where
  "requests_for L reqs =
     map (\<lambda>(src, cb, eb). \<lparr>callback = cb, errorback = eb\<rparr>) (filter (\<lambda>(src, cb, eb). src = L) reqs)"

text \<open>
  Requests that the wrapped loader defers and that do not hide the \<open>hasOwnProperty\<close>
  method; waiters whose success callbacks return and issue only such requests.
\<close>

definition deferred :: "OnlyOnceScriptLoader \<Rightarrow> (jsstring \<times> closure \<times> closure) list \<Rightarrow> bool" where
  "deferred this reqs =
     (\<forall>(src, cb, eb) \<in> set reqs.
        actualScriptLoader this src = Later \<and> src \<noteq> js ''hasOwnProperty'')"


text \<open>Chaining calls from outside, and the history of the result.\<close>

definition and_then :: "outcome \<Rightarrow> (OnlyOnceScriptLoader \<Rightarrow> outcome) \<Rightarrow> outcome" where
  "and_then r f = (case r of Some (s, Returns) \<Rightarrow> f s | _ \<Rightarrow> r)"

definition history :: "outcome \<Rightarrow> (event list \<times> completion) option" where
  "history r = map_option (\<lambda>(s, c). (events s, c)) r"

text \<open>
  When every load is deferred and the method is not hidden, a call of \<open>load\<close> is
  \<open>register\<close> and the loop over a batch is \<open>notify\<close>; both are used in the proofs only.
\<close>

definition register ::
  "OnlyOnceScriptLoader \<Rightarrow> jsstring \<Rightarrow> closure \<Rightarrow> closure \<Rightarrow> OnlyOnceScriptLoader" where
  "register this src cb eb =
     (if own (callbackMap this) src \<noteq> None
      then this\<lparr>callbackMap := push (callbackMap this) src \<lparr>callback = cb, errorback = eb\<rparr>\<rparr>
      else this\<lparr>callbackMap := assign (callbackMap this) src [\<lparr>callback = cb, errorback = eb\<rparr>],
                events := events this @ [ActualLoad src]\<rparr>)"

definition registers ::
  "(jsstring \<times> closure \<times> closure) list \<Rightarrow> OnlyOnceScriptLoader \<Rightarrow> OnlyOnceScriptLoader" where
  "registers reqs this = fold (\<lambda>(src, cb, eb) s. register s src cb eb) reqs this"


definition reentrant ::
  "(IScriptCallbacks \<Rightarrow> closure) \<Rightarrow> IScriptCallbacks list \<Rightarrow> (jsstring \<times> closure \<times> closure) list" where
  "reentrant sel cbs = concat (map (\<lambda>c. cb_loads (sel c)) cbs)"


section \<open>Effects of the loading strategies\<close>

text \<open>
  A strategy is modelled by the effects it has on its collaborators, in the order they
  happen, and by how the call chain ends.
\<close>

datatype Buffer = Buffer nat

datatype LoaderEventType = NodeBeginEvaluatingScript | NodeEndEvaluatingScript

record INodeVMScriptOptions =
  filename :: jsstring
  produceCachedData :: "bool option"
  cachedData_option :: "Buffer option"

record CachedDataError =
  errorCode :: jsstring
  path :: jsstring
  detail :: "jsval option"

text \<open>The two functions handed to \<open>_runSoon\<close>: what runs when the timer fires.\<close>

datatype timer_callback =
    Unlink jsstring
  | WriteFile jsstring Buffer

datatype effect =
    ImportScripts jsstring
  | Callback
  | Errorback jsval
  | EnqueueDefineAnonymousModule "jsstring list" "unit \<Rightarrow> jsval"
  | Record LoaderEventType jsstring
  | NewScript jsstring INodeVMScriptOptions
  | RunScript jsstring jsstring
  | OnNodeCachedDataError CachedDataError
  | SetTimeout timer_callback real
  | FsUnlink jsstring
  | FsWriteFile jsstring Buffer

type_synonym run = "effect list \<times> completion"

text \<open>Sequencing and \<open>try { ... } catch (e) { ... }\<close> on runs.\<close>

definition seq :: "run \<Rightarrow> run \<Rightarrow> run" where
  "seq a b = (case snd a of Returns \<Rightarrow> (fst a @ fst b, snd b) | Throws e \<Rightarrow> a)"

definition try_catch :: "run \<Rightarrow> (jsval \<Rightarrow> run) \<Rightarrow> run" where
  "try_catch body handler =
     (case snd body of
        Returns \<Rightarrow> body
      | Throws e \<Rightarrow> (fst body @ fst (handler e), snd (handler e)))"

section \<open>WorkerScriptLoader\<close>

text \<open>
  \<open>importScripts\<close> returns or throws. The caller's \<open>callback()\<close> and \<open>errorback(e)\<close>
  are calls inside this function's \<open>try\<close> and \<open>catch\<close>, so how each of them ends is part
  of the control flow of \<open>load\<close> itself: each is given by its completion (\<open>cb\<close>, and
  \<open>eb e\<close> for the argument \<open>e\<close>).
\<close>

definition Worker_load ::
  "(jsstring \<Rightarrow> completion) \<Rightarrow> jsstring \<Rightarrow> completion \<Rightarrow> (jsval \<Rightarrow> completion) \<Rightarrow> run" where
  "Worker_load importScripts scriptSrc cb eb =
     try_catch
       (seq ([ImportScripts scriptSrc], importScripts scriptSrc) ([Callback], cb))
       (\<lambda>e. ([Errorback e], eb e))"

section \<open>NodeScriptLoader\<close>

text \<open>
  \<open>INodeVMScript\<close>: the compiled script as \<open>vm\<close> hands it back.
  \<open>runInThisContext\<close> is the call \<open>script.runInThisContext(options)\<close>, which returns the
  function \<open>r\<close> or throws; \<open>r_call\<close> is the call of \<open>r\<close>, the run of the module's code.
\<close>

record INodeVMScript =
  cachedData :: Buffer
  cachedDataProduced :: bool
  cachedDataRejected :: bool
  runInThisContext :: "INodeVMScriptOptions \<Rightarrow> completion"
  r_call :: completion

text \<open>
  What the loader is given and does not define itself (\<open>nodeRequire\<close>, the \<open>fs\<close>,
  \<open>vm\<close>, \<open>path\<close> and \<open>crypto\<close> modules it obtains in \<open>_init\<close>,
  \<open>Utilities.fileUriToFilePath\<close>, the flag \<open>isElectronRenderer\<close>, \<open>Math.random\<close>):
  parameters. A function that can throw returns \<open>Inl\<close> of what it throws; an \<open>fs\<close>
  call is given by what it passes to its callback (\<open>fs_readFile\<close>: \<open>data\<close>, which is
  \<open>undefined\<close> on an error; \<open>fs_unlink\<close> and \<open>fs_writeFile\<close>: \<open>err\<close>).
\<close>

record NodeEnv =
  nodeRequire :: "jsstring \<Rightarrow> jsval + jsval"
  fileUriToFilePath :: "jsstring \<Rightarrow> jsstring"
  fs_readFile_utf8 :: "jsstring \<Rightarrow> jsval + jsstring"
  fs_readFile :: "jsstring \<Rightarrow> Buffer option"
  fs_unlink :: "jsstring \<Rightarrow> jsval option"
  fs_writeFile :: "jsstring \<Rightarrow> Buffer \<Rightarrow> jsval option"
  path_normalize :: "jsstring \<Rightarrow> jsstring"
  path_basename :: "jsstring \<Rightarrow> jsstring"
  path_dirname :: "jsstring \<Rightarrow> jsstring"
  path_join :: "jsstring \<Rightarrow> jsstring \<Rightarrow> jsstring"
  crypto_md5_hex :: "jsstring \<Rightarrow> jsstring"
  vm_Script :: "jsstring \<Rightarrow> INodeVMScriptOptions \<Rightarrow> jsval + INodeVMScript"
  isElectronRenderer :: bool
  Math_random :: real

text \<open>
  \<open>moduleManager.getConfig().getOptionsLiteral()\<close>, the options \<open>load\<close> reads. The
  instrumenter and the error hook are functions of the embedder and can throw.
\<close>

record ConfigurationOptions =
  nodeInstrumenter :: "(jsstring \<Rightarrow> jsstring \<Rightarrow> jsval + jsstring) option"
  nodeCachedDataDir :: "jsstring option"
  nodeCachedDataWriteDelay :: real
  onNodeCachedDataError :: "CachedDataError \<Rightarrow> completion"

text \<open>
  The loader's fields: \<open>_initialized\<close>, and for each of \<open>_fs\<close>, \<open>_vm\<close>, \<open>_path\<close> and
  \<open>_crypto\<close> whether it holds its module or is still \<open>undefined\<close>. \<open>_init\<close> sets
  \<open>_initialized\<close> first, so after an \<open>_init\<close> that threw the later fields stay
  \<open>undefined\<close>, and a use of one of them throws a TypeError.
\<close>

record NodeScriptLoader =
  initialized :: bool
  fs_module :: bool
  vm_module :: bool
  path_module :: bool
  crypto_module :: bool

definition NodeScriptLoader_new :: NodeScriptLoader where
  "NodeScriptLoader_new =
     \<lparr>initialized = False, fs_module = False, vm_module = False, path_module = False,
      crypto_module = False\<rparr>"

definition init :: "NodeEnv \<Rightarrow> NodeScriptLoader \<Rightarrow> NodeScriptLoader \<times> completion" where
  "init env this0 =
     (if initialized this0 then (this0, Returns)
      else
        (let this1 = this0\<lparr>initialized := True\<rparr> in
         case nodeRequire env (js ''fs'') of
           Inl e \<Rightarrow> (this1, Throws e)
         | Inr fs \<Rightarrow>
             (let this2 = this1\<lparr>fs_module := True\<rparr> in
              case nodeRequire env (js ''vm'') of
                Inl e \<Rightarrow> (this2, Throws e)
              | Inr vm \<Rightarrow>
                  (let this3 = this2\<lparr>vm_module := True\<rparr> in
                   case nodeRequire env (js ''path'') of
                     Inl e \<Rightarrow> (this3, Throws e)
                   | Inr p \<Rightarrow>
                       (let this4 = this3\<lparr>path_module := True\<rparr> in
                        case nodeRequire env (js ''crypto'') of
                          Inl e \<Rightarrow> (this4, Throws e)
                        | Inr c \<Rightarrow> (this4\<lparr>crypto_module := True\<rparr>, Returns))))))"

definition BOM :: "16 word" where
  "BOM = 0xFEFF"

text \<open>\<open>charCodeAt\<close> past the end is \<open>NaN\<close>, which equals no code unit.\<close>

definition charCodeAt :: "jsstring \<Rightarrow> nat \<Rightarrow> 16 word option" where
  "charCodeAt s i = (if i < length s then Some (s ! i) else None)"

definition substring :: "jsstring \<Rightarrow> nat \<Rightarrow> jsstring" where
  "substring s i = drop i s"

text \<open>\<open>s.split(sep)\<close> for a separator of one code unit.\<close>

fun split :: "16 word \<Rightarrow> jsstring \<Rightarrow> jsstring list" where
  "split sep [] = [[]]"
| "split sep (c # cs) =
     (if c = sep then [] # split sep cs
      else (case split sep cs of p # ps \<Rightarrow> (c # p) # ps | [] \<Rightarrow> [[c]]))"

definition pipe :: "16 word" where
  "pipe = of_char CHR ''|''"

text \<open>The wrapping of the file's text, lines 235 to 243.\<close>

definition wrap_contents :: "jsstring \<Rightarrow> jsstring" where
  "wrap_contents data =
     (let prefix = js ''(function (require, define, __filename, __dirname) { '';
          suffix = js (CHR 0x0A # ''});'')
      in if charCodeAt data 0 = Some BOM then prefix @ substring data 1 @ suffix
         else prefix @ data @ suffix)"

text \<open>
  The Electron fix-up of \<open>vmScriptSrc\<close>, lines 227 to 233. The match of
  \<open>/^([a-z])\:(.*)/i\<close> is a letter, a colon and the rest up to the first line terminator.
\<close>

definition is_letter :: "16 word \<Rightarrow> bool" where
  "is_letter c = ((0x41 \<le> c \<and> c \<le> 0x5A) \<or> (0x61 \<le> c \<and> c \<le> 0x7A))"

definition toUpperCase :: "16 word \<Rightarrow> 16 word" where
  "toUpperCase c = (if 0x61 \<le> c \<and> c \<le> 0x7A then c - 0x20 else c)"

definition is_line_terminator :: "16 word \<Rightarrow> bool" where
  "is_line_terminator c = (c = 0x0A \<or> c = 0x0D \<or> c = 0x2028 \<or> c = 0x2029)"

definition driveLetterMatch :: "jsstring \<Rightarrow> (16 word \<times> jsstring) option" where
  "driveLetterMatch s =
     (case s of
        c # k # rest \<Rightarrow>
          if is_letter c \<and> k = of_char CHR '':''
          then Some (c, takeWhile (\<lambda>x. \<not> is_line_terminator x) rest) else None
      | _ \<Rightarrow> None)"

definition electron_vmScriptSrc :: "jsstring \<Rightarrow> jsstring" where
  "electron_vmScriptSrc normalizedScriptSrc =
     (let vmScriptSrc =
            (case driveLetterMatch normalizedScriptSrc of
               Some (letter, rest) \<Rightarrow> toUpperCase letter # js '':'' @ rest
             | None \<Rightarrow> normalizedScriptSrc)
      in js ''file:///'' @
         map (\<lambda>c. if c = of_char (CHR 0x5C) then of_char CHR ''/'' else c) vmScriptSrc)"

text \<open>\<open>_getCachedDataPath\<close>; \<open>replace(/\.js$/, '')\<close> removes a final \<open>.js\<close>.\<close>

definition replace_js :: "jsstring \<Rightarrow> jsstring" where
  "replace_js s =
     (if 3 \<le> length s \<and> drop (length s - 3) s = js ''.js'' then take (length s - 3) s else s)"

definition getCachedDataPath :: "NodeEnv \<Rightarrow> jsstring \<Rightarrow> jsstring \<Rightarrow> jsstring" where
  "getCachedDataPath env baseDir fname =
     (let hash = crypto_md5_hex env fname;
          base = replace_js (path_basename env fname)
      in path_join env baseDir (hash @ js ''-'' @ base @ js ''.code''))"

text \<open>\<open>_runSoon\<close>; \<open>rnd\<close> is the value of \<open>Math.random()\<close>.\<close>

definition runSoon :: "real \<Rightarrow> timer_callback \<Rightarrow> real \<Rightarrow> effect list" where
  "runSoon rnd f minTimeout =
     (let timeout = minTimeout + of_int \<lceil>rnd * minTimeout\<rceil> in [SetTimeout f timeout])"

text \<open>
  \<open>_loadAndEvalScript\<close>: the effects, and the script it returns unless a step throws.
\<close>

definition loadAndEvalScript ::
  "NodeEnv \<Rightarrow> NodeScriptLoader \<Rightarrow> jsstring \<Rightarrow> jsstring \<Rightarrow> jsstring \<Rightarrow> INodeVMScriptOptions \<Rightarrow>
     effect list \<times> (jsval + INodeVMScript)" where
  "loadAndEvalScript env this scriptSrc vmScriptSrc contents options =
     (if \<not> vm_module this then ([Record NodeBeginEvaluatingScript scriptSrc], Inl TypeError)
      else
        case vm_Script env contents options of
          Inl e \<Rightarrow>
            ([Record NodeBeginEvaluatingScript scriptSrc, NewScript contents options], Inl e)
        | Inr script \<Rightarrow>
            (case runInThisContext script options of
               Throws e \<Rightarrow>
                 ([Record NodeBeginEvaluatingScript scriptSrc, NewScript contents options],
                  Inl e)
             | Returns \<Rightarrow>
                 if \<not> path_module this then
                   ([Record NodeBeginEvaluatingScript scriptSrc, NewScript contents options],
                    Inl TypeError)
                 else
                   (case r_call script of
                      Throws e \<Rightarrow>
                        ([Record NodeBeginEvaluatingScript scriptSrc, NewScript contents options,
                          RunScript vmScriptSrc (path_dirname env scriptSrc)], Inl e)
                    | Returns \<Rightarrow>
                        ([Record NodeBeginEvaluatingScript scriptSrc, NewScript contents options,
                          RunScript vmScriptSrc (path_dirname env scriptSrc),
                          Record NodeEndEvaluatingScript scriptSrc], Inr script))))"

text \<open>
  The callback of the second \<open>fs.readFile\<close>, lines 256 to 300: \<open>data\<close> is the cache
  file's content, \<open>undefined\<close> (\<open>None\<close>) when it could not be read; \<open>cb\<close> is how the
  caller's \<open>callback()\<close> ends; the other arguments are the variables of \<open>load\<close> the
  closure refers to. An exception of \<open>callback()\<close> or of the hook leaves the function, and
  what follows in it does not happen.
\<close>

definition cachedDataCallback ::
  "NodeEnv \<Rightarrow> ConfigurationOptions \<Rightarrow> NodeScriptLoader \<Rightarrow> completion \<Rightarrow> jsstring \<Rightarrow> jsstring \<Rightarrow>
     jsstring \<Rightarrow> jsstring \<Rightarrow> Buffer option \<Rightarrow> run" where
  "cachedDataCallback env opts this cb scriptSrc vmScriptSrc contents cachedDataPath data =
     (let scriptOptions =
            \<lparr>filename = vmScriptSrc, produceCachedData = Some (data = None),
             cachedData_option = data\<rparr>
      in case loadAndEvalScript env this scriptSrc vmScriptSrc contents scriptOptions of
           (es, Inl e) \<Rightarrow> (es, Throws e)
         | (es, Inr script) \<Rightarrow>
             seq (es, Returns)
               (seq ([Callback], cb)
                  (if cachedDataRejected script then
                     seq ([OnNodeCachedDataError
                             \<lparr>errorCode = js ''cachedDataRejected'', path = cachedDataPath,
                              detail = None\<rparr>],
                          onNodeCachedDataError opts
                            \<lparr>errorCode = js ''cachedDataRejected'', path = cachedDataPath,
                             detail = None\<rparr>)
                       (runSoon (Math_random env) (Unlink cachedDataPath)
                          (nodeCachedDataWriteDelay opts), Returns)
                   else if cachedDataProduced script then
                     (runSoon (Math_random env) (WriteFile cachedDataPath (cachedData script))
                        (nodeCachedDataWriteDelay opts), Returns)
                   else ([], Returns))))"

text \<open>
  \<open>load\<close>, with \<open>cb\<close> and \<open>eb\<close> how the caller's \<open>callback()\<close> and \<open>errorback(err)\<close> end.
  The two \<open>fs.readFile\<close> callbacks run later than the call of \<open>load\<close>; the run lists the
  effects of the whole chain in the order they happen, and ends in \<open>Throws\<close> when an
  exception leaves \<open>load\<close> or one of the callbacks. \<open>!opts.nodeCachedDataDir\<close> holds for
  \<open>undefined\<close> and for the empty string.
\<close>

definition Node_load ::
  "NodeEnv \<Rightarrow> ConfigurationOptions \<Rightarrow> NodeScriptLoader \<Rightarrow> jsstring \<Rightarrow> completion \<Rightarrow>
     (jsval \<Rightarrow> completion) \<Rightarrow> NodeScriptLoader \<times> run" where
  "Node_load env opts this0 scriptSrc0 cb eb =
     (let nodeInstrumenter =
            (case nodeInstrumenter opts of Some f \<Rightarrow> f | None \<Rightarrow> (\<lambda>c s. Inr c))
      in case init env this0 of
           (this, Throws e) \<Rightarrow> (this, ([], Throws e))
         | (this, Returns) \<Rightarrow>
             (this,
              if prefix (js ''node|'') scriptSrc0 then
                (let pieces = split pipe scriptSrc0 in
                 case nodeRequire env (pieces ! 1) of
                   Inl err \<Rightarrow> ([Errorback err], eb err)
                 | Inr moduleExports \<Rightarrow>
                     ([EnqueueDefineAnonymousModule [] (\<lambda>_. moduleExports), Callback], cb))
              else
                (let scriptSrc = fileUriToFilePath env scriptSrc0 in
                 if \<not> fs_module this then ([], Throws TypeError)
                 else
                   case fs_readFile_utf8 env scriptSrc of
                     Inl err \<Rightarrow> ([Errorback err], eb err)
                   | Inr data \<Rightarrow>
                       if \<not> path_module this then ([], Throws TypeError)
                       else
                         (let normalizedScriptSrc = path_normalize env scriptSrc;
                              vmScriptSrc =
                                (if isElectronRenderer env
                                 then electron_vmScriptSrc normalizedScriptSrc
                                 else normalizedScriptSrc)
                          in case nodeInstrumenter (wrap_contents data) normalizedScriptSrc of
                               Inl e \<Rightarrow> ([], Throws e)
                             | Inr contents \<Rightarrow>
                                 (case nodeCachedDataDir opts of
                                    Some (c # cs) \<Rightarrow>
                                      if \<not> crypto_module this then ([], Throws TypeError)
                                      else
                                        (let cachedDataPath =
                                               getCachedDataPath env (c # cs) scriptSrc
                                         in cachedDataCallback env opts this cb scriptSrc
                                              vmScriptSrc contents cachedDataPath
                                              (fs_readFile env cachedDataPath))
                                  | _ \<Rightarrow>
                                      (case loadAndEvalScript env this scriptSrc vmScriptSrc
                                              contents
                                              \<lparr>filename = vmScriptSrc, produceCachedData = None,
                                               cachedData_option = None\<rparr> of
                                         (es, Inl e) \<Rightarrow> (es, Throws e)
                                       | (es, Inr script) \<Rightarrow> (es @ [Callback], cb)))))))"

text \<open>
  A timer that fires: the \<open>fs\<close> call, and the report to \<open>onNodeCachedDataError\<close> when
  the call passes an error.
\<close>

fun fire :: "NodeEnv \<Rightarrow> timer_callback \<Rightarrow> effect list" where
  "fire env (Unlink p) =
     FsUnlink p #
     (case fs_unlink env p of
        None \<Rightarrow> []
      | Some err \<Rightarrow>
          [OnNodeCachedDataError \<lparr>errorCode = js ''unlink'', path = p, detail = Some err\<rparr>])"
| "fire env (WriteFile p d) =
     FsWriteFile p d #
     (case fs_writeFile env p d of
        None \<Rightarrow> []
      | Some err \<Rightarrow>
          [OnNodeCachedDataError \<lparr>errorCode = js ''writeFile'', path = p, detail = Some err\<rparr>])"

fun fire_timer :: "NodeEnv \<Rightarrow> effect \<Rightarrow> effect list" where
  "fire_timer env (SetTimeout f t) = fire env f"
| "fire_timer env e = []"

text \<open>A run followed by the timers it set, and the whole history of one \<open>load\<close>.\<close>

definition with_timers :: "NodeEnv \<Rightarrow> effect list \<Rightarrow> effect list" where
  "with_timers env es = es @ concat (map (fire_timer env) es)"

definition Node_history ::
  "NodeEnv \<Rightarrow> ConfigurationOptions \<Rightarrow> NodeScriptLoader \<Rightarrow> jsstring \<Rightarrow> completion \<Rightarrow>
     (jsval \<Rightarrow> completion) \<Rightarrow> effect list" where
  "Node_history env opts this scriptSrc cb eb =
     with_timers env (fst (snd (Node_load env opts this scriptSrc cb eb)))"

text \<open>Reading a run: what comes before and after the success callback.\<close>

definition before_callback :: "effect list \<Rightarrow> effect list" where
  "before_callback es = takeWhile (\<lambda>x. x \<noteq> Callback) es"

definition after_callback :: "effect list \<Rightarrow> effect list" where
  "after_callback es = drop 1 (dropWhile (\<lambda>x. x \<noteq> Callback) es)"

fun is_cache_action :: "effect \<Rightarrow> bool" where
  "is_cache_action (OnNodeCachedDataError e) = True"
| "is_cache_action (SetTimeout f t) = True"
| "is_cache_action (FsUnlink p) = True"
| "is_cache_action (FsWriteFile p d) = True"
| "is_cache_action e = False"

fun is_Errorback :: "effect \<Rightarrow> bool" where
  "is_Errorback (Errorback e) = True"
| "is_Errorback e = False"

section \<open>Concrete inputs\<close>

text \<open>
  A wrapped loader that completes every load later, and a prototype chain on which no
  locator is found.
\<close>

definition asynchronous :: "jsstring \<Rightarrow> answer" where
  "asynchronous src = Later"

definition bare :: prototypes where
  "bare p k = False"

text \<open>
  A Node environment: the four core modules resolve, the script file can be read, there
  is no cache file yet, and the compiler produces a cache blob when it is handed none and
  rejects any blob it is handed; deleting and writing the cache file both fail. In
  \<open>unconfigured_env\<close> there is no \<open>nodeRequire\<close> function at all, so every call of it
  throws a TypeError. In \<open>stale_env\<close> a cache file is there.
\<close>

definition cold_script :: INodeVMScript where
  "cold_script =
     \<lparr>cachedData = Buffer 1, cachedDataProduced = True, cachedDataRejected = False,
      runInThisContext = (\<lambda>_. Returns), r_call = Returns\<rparr>"

definition stale_script :: INodeVMScript where
  "stale_script =
     \<lparr>cachedData = Buffer 1, cachedDataProduced = False, cachedDataRejected = True,
      runInThisContext = (\<lambda>_. Returns), r_call = Returns\<rparr>"

definition demo_env :: NodeEnv where
  "demo_env =
     \<lparr>nodeRequire = (\<lambda>name.
        if name \<in> {js ''fs'', js ''vm'', js ''path'', js ''crypto''} then Inr (JSVal 7)
        else Inl (JSVal 404)),
      fileUriToFilePath = (\<lambda>uri. uri),
      fs_readFile_utf8 = (\<lambda>f. Inr (js ''define([]);'')),
      fs_readFile = (\<lambda>f. None),
      fs_unlink = (\<lambda>f. Some (JSVal 13)),
      fs_writeFile = (\<lambda>f d. Some (JSVal 28)),
      path_normalize = (\<lambda>f. f),
      path_basename = (\<lambda>f. rev (takeWhile (\<lambda>c. c \<noteq> of_char CHR ''/'') (rev f))),
      path_dirname = (\<lambda>f. rev (drop 1 (dropWhile (\<lambda>c. c \<noteq> of_char CHR ''/'') (rev f)))),
      path_join = (\<lambda>a b. a @ js ''/'' @ b),
      crypto_md5_hex = (\<lambda>s. js ''0cc175b9c0f1b6a831c399e269772661''),
      vm_Script = (\<lambda>contents options.
        Inr (if cachedData_option options = None then cold_script else stale_script)),
      isElectronRenderer = False,
      Math_random = 1 / 2\<rparr>"

definition unconfigured_env :: NodeEnv where
  "unconfigured_env = demo_env\<lparr>nodeRequire := (\<lambda>name. Inl TypeError)\<rparr>"

definition stale_env :: NodeEnv where
  "stale_env = demo_env\<lparr>fs_readFile := (\<lambda>f. Some (Buffer 9))\<rparr>"

definition demo_opts :: ConfigurationOptions where
  "demo_opts =
     \<lparr>nodeInstrumenter = None, nodeCachedDataDir = Some (js ''/cache''),
      nodeCachedDataWriteDelay = 1000, onNodeCachedDataError = (\<lambda>e. Returns)\<rparr>"

section \<open>The deduplicating loader: lemmas\<close>

lemma requests_for_simps [simp]:
  "requests_for L [] = []"
  "requests_for L ((src, cb, eb) # reqs) =
     (if src = L then \<lparr>callback = cb, errorback = eb\<rparr> # requests_for L reqs else requests_for L reqs)"
  "requests_for L (xs @ ys) = requests_for L xs @ requests_for L ys"
  by (simp_all add: requests_for_def)

lemma registers_simps [simp]:
  "registers [] this = this"
  "registers ((src, cb, eb) # reqs) this = registers reqs (register this src cb eb)"
  "registers (xs @ ys) this = registers ys (registers xs this)"
  by (simp_all add: registers_def)

lemma reentrant_simps [simp]:
  "reentrant sel [] = []"
  "reentrant sel (c # cs) = cb_loads (sel c) @ reentrant sel cs"
  by (simp_all add: reentrant_def)


lemma deferred_simps [simp]:
  "deferred this []"
  "deferred this ((src, cb, eb) # reqs) \<longleftrightarrow>
     actualScriptLoader this src = Later \<and> src \<noteq> js ''hasOwnProperty'' \<and> deferred this reqs"
  "deferred this (xs @ ys) \<longleftrightarrow> deferred this xs \<and> deferred this ys"
  by (auto simp: deferred_def)

lemma deferred_cong: "actualScriptLoader s = actualScriptLoader this \<Longrightarrow> deferred s reqs = deferred this reqs"
  by (simp add: deferred_def)

lemma actual_register [simp]: "actualScriptLoader (register this src cb eb) = actualScriptLoader this"
  by (simp add: register_def)

lemma actual_registers [simp]: "actualScriptLoader (registers reqs this) = actualScriptLoader this"
  by (induction reqs arbitrary: this) auto














text \<open>A completion for a locator with no entry, such as a second completion, throws.\<close>

lemma completion_without_entry:
  assumes "own (callbackMap this) L = None" and "L \<noteq> js ''__proto__''"
    and "\<not> chain (proto (callbackMap this)) L"
  shows "triggerCallback chain n this L =
           Some (this\<lparr>callbackMap := delete (callbackMap this) L\<rparr>, Throws TypeError)"
    and "triggerErrorback chain n this L err =
           Some (this\<lparr>callbackMap := delete (callbackMap this) L\<rparr>, Throws TypeError)"
  using assms
  by (simp_all add: triggerCallback_def triggerCallback_with_def triggerErrorback_def
      triggerErrorback_with_def get_def)

section \<open>The deduplicating loader: claims\<close>




text \<open>
  C2. After \<open>load('__proto__', ...)\<close> the completion does not remove the pending entry:
  \<open>delete\<close> removes own properties only, and the queue sits in the prototype. A second
  completion finds the same queue and invokes the same callback again, on success and
  on failure alike; for \<open>a.js\<close> the second completion finds nothing and throws. The
  next theorem evaluates the three runs.
\<close>

theorem proto_entry_survives_completion:
  "history
     (and_then
        (and_then
           (OnlyOnce_load bare 0 (OnlyOnce_new asynchronous) (js ''__proto__'')
              (Closure 1 [] None) (Closure 2 [] None))
           (\<lambda>pending. triggerCallback bare (Suc 0) pending (js ''__proto__'')))
        (\<lambda>done. triggerCallback bare (Suc 0) done (js ''__proto__''))) =
     Some ([ActualLoad (js ''__proto__''), CallbackCalled 1, CallbackCalled 1], Returns)
   \<and> history
       (and_then
          (and_then
             (OnlyOnce_load bare 0 (OnlyOnce_new asynchronous) (js ''__proto__'')
                (Closure 1 [] None) (Closure 2 [] None))
             (\<lambda>pending. triggerErrorback bare (Suc 0) pending (js ''__proto__'') (JSVal 7)))
          (\<lambda>done. triggerErrorback bare (Suc 0) done (js ''__proto__'') (JSVal 7))) =
     Some ([ActualLoad (js ''__proto__''), ErrorbackCalled 2 (JSVal 7),
            ErrorbackCalled 2 (JSVal 7)], Returns)
   \<and> history
       (and_then
          (and_then
             (OnlyOnce_load bare 0 (OnlyOnce_new asynchronous) (js ''a.js'')
                (Closure 1 [] None) (Closure 2 [] None))
             (\<lambda>pending. triggerCallback bare (Suc 0) pending (js ''a.js'')))
          (\<lambda>done. triggerCallback bare (Suc 0) done (js ''a.js''))) =
     Some ([ActualLoad (js ''a.js''), CallbackCalled 1], Throws TypeError)"
  by (simp add: history_def and_then_def OnlyOnce_load_def triggerCallback_def
      triggerCallback_with_def triggerErrorback_def triggerErrorback_with_def load_with_def
      hasOwnProperty_def assign_def push_def get_def delete_def OnlyOnce_new_def
      asynchronous_def bare_def js_def)

text \<open>
  C10. While a load of \<open>hasOwnProperty\<close> is pending, the entry of that name hides the
  method that line 44 calls. A load of \<open>a.js\<close> issued from inside a success callback for
  \<open>a.js\<close> then throws a TypeError instead of creating a new entry and starting a new
  underlying load, and the exception leaves the completion. Without the pending
  \<open>hasOwnProperty\<close> entry the same reentrant load starts a new underlying load. The next
  theorem evaluates both runs.
\<close>

theorem reentrant_load_throws_while_hasOwnProperty_is_pending:
  "history
     (and_then
        (requests_loop (OnlyOnce_load bare 0)
           [(js ''a.js'', Closure 1 [(js ''a.js'', Closure 3 [] None, Closure 4 [] None)] None,
             Closure 2 [] None),
            (js ''hasOwnProperty'', Closure 5 [] None, Closure 6 [] None)]
           (OnlyOnce_new asynchronous))
        (\<lambda>queued. triggerCallback bare (Suc 0) queued (js ''a.js''))) =
     Some ([ActualLoad (js ''a.js''), ActualLoad (js ''hasOwnProperty''), CallbackCalled 1],
           Throws TypeError)
   \<and> history
       (and_then
          (requests_loop (OnlyOnce_load bare 0)
             [(js ''a.js'', Closure 1 [(js ''a.js'', Closure 3 [] None, Closure 4 [] None)] None,
               Closure 2 [] None)]
             (OnlyOnce_new asynchronous))
          (\<lambda>queued. triggerCallback bare (Suc 0) queued (js ''a.js''))) =
     Some ([ActualLoad (js ''a.js''), CallbackCalled 1, ActualLoad (js ''a.js'')], Returns)"
  by (simp add: history_def and_then_def OnlyOnce_load_def triggerCallback_def
      triggerCallback_with_def load_with_def hasOwnProperty_def assign_def push_def get_def
      delete_def OnlyOnce_new_def asynchronous_def js_def)

section \<open>WorkerScriptLoader: claim\<close>

lemma Worker_load_callback_returns:
  "Worker_load importScripts scriptSrc Returns eb =
     (case importScripts scriptSrc of
        Returns \<Rightarrow> ([ImportScripts scriptSrc, Callback], Returns)
      | Throws e \<Rightarrow> ([ImportScripts scriptSrc, Errorback e], eb e))"
  by (simp add: Worker_load_def try_catch_def seq_def split: completion.splits)

text \<open>
  C3. \<open>callback()\<close> stands inside the \<open>try\<close> block. When \<open>importScripts\<close> returns and
  the success callback then throws, the \<open>catch\<close> clause takes the exception and calls the
  failure callback as well: both callbacks are invoked, and the failure callback although
  the import did not throw. (When the success callback returns, exactly one of the two is
  invoked, as \<open>Worker_load_callback_returns\<close> above shows.)
\<close>

theorem Worker_load_calls_both_when_callback_throws:
  "Worker_load (\<lambda>s. Returns) (js ''worker.js'') (Throws (JSVal 1)) (\<lambda>e. Returns) =
     ([ImportScripts (js ''worker.js''), Callback, Errorback (JSVal 1)], Returns)"
  by (simp add: Worker_load_def try_catch_def seq_def)

section \<open>NodeScriptLoader: claims\<close>

lemma replace_js_append [simp]: "replace_js (b @ js ''.js'') = b"
  by (simp add: replace_js_def js_def)

lemma replace_js_other: "\<not> suffix (js ''.js'') s \<Longrightarrow> replace_js s = s"
proof -
  assume n: "\<not> suffix (js ''.js'') s"
  have "\<not> (3 \<le> length s \<and> drop (length s - 3) s = js ''.js'')"
  proof
    assume a: "3 \<le> length s \<and> drop (length s - 3) s = js ''.js''"
    have "s = take (length s - 3) s @ drop (length s - 3) s" by simp
    then have "s = take (length s - 3) s @ js ''.js''" using a by simp
    then have "suffix (js ''.js'') s" by (metis suffixI)
    with n show False by simp
  qed
  then show ?thesis unfolding replace_js_def by (simp only: if_False)
qed

text \<open>
  C9. The cache file of \<open>P\<close> under the directory \<open>D\<close> is
  \<open>join(D, h + '-' + b + '.code')\<close>, where \<open>h\<close> is the hex MD5 digest of \<open>P\<close> and \<open>b\<close> is
  the base name of \<open>P\<close> without a final \<open>.js\<close>: the part before \<open>.js\<close> when the base name
  ends in it, the whole base name when it does not.
\<close>

theorem cached_data_path:
  "(path_basename env P = b @ js ''.js'' \<longrightarrow>
      getCachedDataPath env D P =
        path_join env D (crypto_md5_hex env P @ js ''-'' @ b @ js ''.code''))
   \<and> (\<not> suffix (js ''.js'') (path_basename env P) \<longrightarrow>
      getCachedDataPath env D P =
        path_join env D (crypto_md5_hex env P @ js ''-'' @ path_basename env P @ js ''.code''))"
  by (simp add: getCachedDataPath_def replace_js_other)

theorem cached_data_path_witness:
  "path_basename demo_env (js ''/src/main.js'') = js ''main'' @ js ''.js''
   \<and> getCachedDataPath demo_env (js ''/cache'') (js ''/src/main.js'') =
       js ''/cache/0cc175b9c0f1b6a831c399e269772661-main.code''
   \<and> \<not> suffix (js ''.js'') (path_basename demo_env (js ''/src/data.json''))
   \<and> getCachedDataPath demo_env (js ''/cache'') (js ''/src/data.json'') =
       js ''/cache/0cc175b9c0f1b6a831c399e269772661-data.json.code''"
proof -
  have b: "path_basename demo_env (js ''/src/main.js'') = js ''main'' @ js ''.js''"
    by (simp add: demo_env_def js_def)
  have n: "\<not> suffix (js ''.js'') (path_basename demo_env (js ''/src/data.json''))"
    by (simp add: demo_env_def js_def suffix_to_prefix)
  show ?thesis
    using b n cached_data_path [of demo_env "js ''/src/main.js''" "js ''main''" "js ''/cache''"]
      cached_data_path [of demo_env "js ''/src/data.json''" "[]" "js ''/cache''"]
    by (simp add: demo_env_def js_def)
qed




text \<open>
  C7, amended. A text that begins with the BOM is wrapped as the prefix, the text after
  that first BOM, and the suffix. When the text after the BOM does not itself begin with
  a BOM, this is also how that text is wrapped on its own, so the two outputs are equal.
\<close>

theorem wrap_strips_one_BOM:
  "wrap_contents (BOM # s) =
     js ''(function (require, define, __filename, __dirname) { '' @ s @ js (CHR 0x0A # ''});'')
   \<and> (charCodeAt s 0 \<noteq> Some BOM \<longrightarrow>
        wrap_contents s =
          js ''(function (require, define, __filename, __dirname) { '' @ s @ js (CHR 0x0A # ''});'')
        \<and> wrap_contents (BOM # s) = wrap_contents s)"
  by (simp add: wrap_contents_def charCodeAt_def substring_def Let_def)

theorem wrap_strips_one_BOM_witness:
  "charCodeAt (js ''console.log(1)'') 0 \<noteq> Some BOM
   \<and> wrap_contents (BOM # js ''console.log(1)'') = wrap_contents (js ''console.log(1)'')
   \<and> wrap_contents (js ''console.log(1)'') =
       js ''(function (require, define, __filename, __dirname) { console.log(1)'' @
       js (CHR 0x0A # ''});'')"
  using wrap_strips_one_BOM [of "js ''console.log(1)''"]
  by (simp add: charCodeAt_def js_def BOM_def)

text \<open>
  Only one BOM is removed: a text with two leading BOMs keeps the second one, while the
  same text without its first BOM loses it.
\<close>

theorem wrap_second_BOM_stays:
  "charCodeAt (BOM # BOM # js ''console.log(1)'') 0 = Some BOM
   \<and> wrap_contents (BOM # BOM # js ''console.log(1)'') \<noteq> wrap_contents (BOM # js ''console.log(1)'')"
  by (simp add: wrap_contents_def charCodeAt_def substring_def js_def BOM_def)

lemma split_nonempty: "split sep xs \<noteq> []"
  by (induction xs) (auto split: list.splits)

lemma hd_split: "hd (split sep xs) = takeWhile (\<lambda>c. c \<noteq> sep) xs"
  by (induction xs) (auto split: list.splits simp: split_nonempty)

lemma split_append_sep: "sep \<notin> set xs \<Longrightarrow> split sep (xs @ sep # ys) = xs # split sep ys"
  by (induction xs) (auto split: list.splits simp: split_nonempty)

lemma native_module_name:
  assumes "prefix (js ''node|'') scriptSrc"
  shows "split pipe scriptSrc ! 1 = takeWhile (\<lambda>c. c \<noteq> pipe) (drop 5 scriptSrc)"
proof -
  obtain rest where src: "scriptSrc = js ''node|'' @ rest"
    using assms by (auto elim: prefixE)
  have parts: "js ''node|'' @ rest = js ''node'' @ pipe # rest"
    by (simp add: js_def pipe_def)
  have "pipe \<notin> set (js ''node'')"
    by (simp add: js_def pipe_def)
  then have "split pipe scriptSrc = js ''node'' # split pipe rest"
    unfolding src parts by (rule split_append_sep)
  then have "split pipe scriptSrc ! 1 = hd (split pipe rest)"
    by (simp add: hd_conv_nth split_nonempty)
  moreover have "drop 5 scriptSrc = rest"
    unfolding src by (simp add: js_def)
  ultimately show ?thesis by (simp add: hd_split)
qed

lemma init_returns:
  assumes "snd (init env this0) = Returns"
  obtains this where "init env this0 = (this, Returns)"
  using assms by (cases "init env this0") simp

text \<open>
  C8, amended. Let \<open>_init\<close> return: the loader was initialised by an earlier call of
  \<open>load\<close>, or \<open>nodeRequire\<close> resolves \<open>fs\<close>, \<open>vm\<close>, \<open>path\<close> and \<open>crypto\<close>. For a locator
  that starts with \<open>node|\<close>, the name resolved is the text between the first and the
  second \<open>|\<close>. When \<open>nodeRequire\<close> throws for it, the only effect of \<open>load\<close> is the call of
  the failure callback with what was thrown: no success callback and no module
  definition. When it returns, \<open>load\<close> first enqueues an anonymous module definition with
  no dependencies whose factory returns the imported value, and then calls the success
  callback. In both cases \<open>load\<close> ends as the callback it called ends.
\<close>

theorem native_module_load:
  assumes native: "prefix (js ''node|'') scriptSrc"
    and initialised: "snd (init env this) = Returns"
  shows "(nodeRequire env (takeWhile (\<lambda>c. c \<noteq> pipe) (drop 5 scriptSrc)) = Inl err \<longrightarrow>
            snd (Node_load env opts this scriptSrc cb eb) = ([Errorback err], eb err))
       \<and> (nodeRequire env (takeWhile (\<lambda>c. c \<noteq> pipe) (drop 5 scriptSrc)) = Inr moduleExports \<longrightarrow>
            (\<exists>factory.
               snd (Node_load env opts this scriptSrc cb eb) =
                 ([EnqueueDefineAnonymousModule [] factory, Callback], cb)
               \<and> factory () = moduleExports))"
proof -
  obtain ready where i: "init env this = (ready, Returns)"
    using initialised by (rule init_returns)
  show ?thesis
    using native native_module_name [OF native]
    by (simp add: Node_load_def i)
qed

theorem native_module_load_witness:
  "prefix (js ''node|'') (js ''node|nonexistent-module'')
   \<and> snd (init demo_env NodeScriptLoader_new) = Returns
   \<and> nodeRequire demo_env (js ''nonexistent-module'') = Inl (JSVal 404)
   \<and> snd (Node_load demo_env demo_opts NodeScriptLoader_new (js ''node|nonexistent-module'')
            Returns (\<lambda>e. Returns)) =
       ([Errorback (JSVal 404)], Returns)
   \<and> prefix (js ''node|'') (js ''node|fs'')
   \<and> nodeRequire demo_env (js ''fs'') = Inr (JSVal 7)
   \<and> (\<exists>factory.
         snd (Node_load demo_env demo_opts NodeScriptLoader_new (js ''node|fs'')
                Returns (\<lambda>e. Returns)) =
           ([EnqueueDefineAnonymousModule [] factory, Callback], Returns)
         \<and> factory () = JSVal 7)"
proof -
  have p1: "prefix (js ''node|'') (js ''node|nonexistent-module'')"
    and p2: "prefix (js ''node|'') (js ''node|fs'')"
    by (simp_all add: js_def)
  have i: "snd (init demo_env NodeScriptLoader_new) = Returns"
    by (simp add: init_def NodeScriptLoader_new_def demo_env_def js_def)
  have n1: "takeWhile (\<lambda>c. c \<noteq> pipe) (drop 5 (js ''node|nonexistent-module'')) = js ''nonexistent-module''"
    and n2: "takeWhile (\<lambda>c. c \<noteq> pipe) (drop 5 (js ''node|fs'')) = js ''fs''"
    by (simp_all add: js_def pipe_def)
  have r1: "nodeRequire demo_env (js ''nonexistent-module'') = Inl (JSVal 404)"
    and r2: "nodeRequire demo_env (js ''fs'') = Inr (JSVal 7)"
    by (simp_all add: demo_env_def js_def)
  show ?thesis
    using p1 p2 i r1 r2
      native_module_load [OF p1 i, where err = "JSVal 404" and moduleExports = "JSVal 7"
        and opts = demo_opts and cb = Returns and eb = "\<lambda>e. Returns"]
      native_module_load [OF p2 i, where err = "JSVal 404" and moduleExports = "JSVal 7"
        and opts = demo_opts and cb = Returns and eb = "\<lambda>e. Returns"]
    unfolding n1 n2 by simp
qed

text \<open>
  Without that hypothesis the claim fails: on a loader not yet initialised whose
  \<open>nodeRequire\<close> throws for every name, \<open>_init\<close> throws at line 186, before the \<open>try\<close> of
  line 204 is reached. The load of \<open>node|nonexistent-module\<close> then calls neither
  callback, and the exception leaves \<open>load\<close>.
\<close>

theorem native_module_load_throws_on_uninitialised_loader:
  "prefix (js ''node|'') (js ''node|nonexistent-module'')
   \<and> nodeRequire unconfigured_env (js ''nonexistent-module'') = Inl TypeError
   \<and> snd (Node_load unconfigured_env demo_opts NodeScriptLoader_new
            (js ''node|nonexistent-module'') Returns (\<lambda>e. Returns)) =
       ([], Throws TypeError)"
  by (simp add: Node_load_def init_def NodeScriptLoader_new_def unconfigured_env_def
      demo_env_def js_def)

section \<open>NodeScriptLoader: the cached path\<close>

lemma before_callback_append:
  "Callback \<notin> set es \<Longrightarrow> before_callback (es @ Callback # rest) = es"
  unfolding before_callback_def by (induction es) auto

lemma after_callback_append:
  "Callback \<notin> set es \<Longrightarrow> after_callback (es @ Callback # rest) = rest"
proof -
  assume "Callback \<notin> set es"
  then have "dropWhile (\<lambda>x. x \<noteq> Callback) (es @ Callback # rest) = Callback # rest"
    by (induction es) auto
  then show ?thesis by (simp add: after_callback_def)
qed

lemma loadAndEvalScript_ran:
  assumes "vm_module this" and "path_module this"
    and "vm_Script env contents options = Inr script"
    and "runInThisContext script options = Returns" and "r_call script = Returns"
  shows "loadAndEvalScript env this scriptSrc vmScriptSrc contents options =
     ([Record NodeBeginEvaluatingScript scriptSrc, NewScript contents options,
       RunScript vmScriptSrc (path_dirname env scriptSrc),
       Record NodeEndEvaluatingScript scriptSrc], Inr script)"
  using assms by (simp add: loadAndEvalScript_def)

lemma cachedDataCallback_ran:
  assumes "loadAndEvalScript env this scriptSrc vmScriptSrc contents
             \<lparr>filename = vmScriptSrc, produceCachedData = Some (data = None),
              cachedData_option = data\<rparr> = (es, Inr script)"
  shows "cachedDataCallback env opts this cb scriptSrc vmScriptSrc contents cachedDataPath data =
     (case cb of
        Throws e \<Rightarrow> (es @ [Callback], Throws e)
      | Returns \<Rightarrow>
          if cachedDataRejected script then
            (case onNodeCachedDataError opts
                    \<lparr>errorCode = js ''cachedDataRejected'', path = cachedDataPath,
                     detail = None\<rparr> of
               Throws e \<Rightarrow>
                 (es @ [Callback,
                        OnNodeCachedDataError
                          \<lparr>errorCode = js ''cachedDataRejected'', path = cachedDataPath,
                           detail = None\<rparr>], Throws e)
             | Returns \<Rightarrow>
                 (es @ [Callback,
                        OnNodeCachedDataError
                          \<lparr>errorCode = js ''cachedDataRejected'', path = cachedDataPath,
                           detail = None\<rparr>,
                        SetTimeout (Unlink cachedDataPath)
                          (nodeCachedDataWriteDelay opts +
                           of_int \<lceil>Math_random env * nodeCachedDataWriteDelay opts\<rceil>)],
                  Returns))
          else if cachedDataProduced script then
            (es @ [Callback,
                   SetTimeout (WriteFile cachedDataPath (cachedData script))
                     (nodeCachedDataWriteDelay opts +
                      of_int \<lceil>Math_random env * nodeCachedDataWriteDelay opts\<rceil>)],
             Returns)
          else (es @ [Callback], Returns))"
  using assms
  by (simp add: cachedDataCallback_def seq_def runSoon_def split: completion.splits)

text \<open>
  C5, amended. Let the second \<open>fs.readFile\<close> callback compile the script and run it
  without an exception, on a loader that holds its \<open>vm\<close> and \<open>path\<close> modules, let
  the caller's success callback return normally, and, when the
  script has \<open>cachedDataRejected\<close>, let \<open>onNodeCachedDataError\<close> return. Then the callback
  does exactly this: the evaluation, the success callback, and what the script's flags
  decide. With \<open>cachedDataRejected\<close>: \<open>onNodeCachedDataError\<close> gets
  \<open>{errorCode: 'cachedDataRejected', path}\<close>, then one timer is set that unlinks the cache
  file. Otherwise, with \<open>cachedDataProduced\<close>: one timer is set that writes
  \<open>script.cachedData\<close> to the cache file. With neither flag: nothing. When the timer has
  fired, the history holds in addition the one unlink, or the one write, with its error
  report if it failed, and nothing in the third case.
\<close>

theorem cache_action_follows_flags:
  assumes modules: "vm_module this" "path_module this"
    and compiled:
      "vm_Script env contents
         \<lparr>filename = vmScriptSrc, produceCachedData = Some (data = None),
          cachedData_option = data\<rparr> = Inr script"
    and ran:
      "runInThisContext script
         \<lparr>filename = vmScriptSrc, produceCachedData = Some (data = None),
          cachedData_option = data\<rparr> = Returns"
      "r_call script = Returns"
    and returned: "cb = Returns"
    and reported:
      "cachedDataRejected script \<longrightarrow>
         onNodeCachedDataError opts
           \<lparr>errorCode = js ''cachedDataRejected'', path = cachedDataPath, detail = None\<rparr> =
         Returns"
  shows "cachedDataCallback env opts this cb scriptSrc vmScriptSrc contents cachedDataPath data =
           ([Record NodeBeginEvaluatingScript scriptSrc,
             NewScript contents
               \<lparr>filename = vmScriptSrc, produceCachedData = Some (data = None),
                cachedData_option = data\<rparr>,
             RunScript vmScriptSrc (path_dirname env scriptSrc),
             Record NodeEndEvaluatingScript scriptSrc,
             Callback] @
            (if cachedDataRejected script then
               [OnNodeCachedDataError
                  \<lparr>errorCode = js ''cachedDataRejected'', path = cachedDataPath, detail = None\<rparr>,
                SetTimeout (Unlink cachedDataPath)
                  (nodeCachedDataWriteDelay opts +
                   of_int \<lceil>Math_random env * nodeCachedDataWriteDelay opts\<rceil>)]
             else if cachedDataProduced script then
               [SetTimeout (WriteFile cachedDataPath (cachedData script))
                  (nodeCachedDataWriteDelay opts +
                   of_int \<lceil>Math_random env * nodeCachedDataWriteDelay opts\<rceil>)]
             else []),
            Returns)
       \<and> with_timers env
           (fst (cachedDataCallback env opts this cb scriptSrc vmScriptSrc contents
                   cachedDataPath data)) =
         fst (cachedDataCallback env opts this cb scriptSrc vmScriptSrc contents
                cachedDataPath data) @
         (if cachedDataRejected script then fire env (Unlink cachedDataPath)
          else if cachedDataProduced script then
            fire env (WriteFile cachedDataPath (cachedData script))
          else [])"
proof -
  note run = cachedDataCallback_ran [OF loadAndEvalScript_ran [OF modules compiled ran],
      where scriptSrc = scriptSrc and opts = opts and cachedDataPath = cachedDataPath
        and cb = cb]
  show ?thesis
    unfolding run using returned reported by (simp add: with_timers_def)
qed

theorem cache_action_follows_flags_witness:
  "vm_module (fst (init demo_env NodeScriptLoader_new))
   \<and> path_module (fst (init demo_env NodeScriptLoader_new))
   \<and> vm_Script demo_env (wrap_contents (js ''define([]);''))
       \<lparr>filename = js ''/src/main.js'', produceCachedData = Some True, cachedData_option = None\<rparr>
     = Inr cold_script
   \<and> runInThisContext cold_script
       \<lparr>filename = js ''/src/main.js'', produceCachedData = Some True, cachedData_option = None\<rparr>
     = Returns
   \<and> r_call cold_script = Returns
   \<and> cachedDataProduced cold_script \<and> \<not> cachedDataRejected cold_script
   \<and> snd (Node_load demo_env demo_opts NodeScriptLoader_new (js ''/src/main.js'') Returns
            (\<lambda>e. Returns)) =
       cachedDataCallback demo_env demo_opts (fst (init demo_env NodeScriptLoader_new)) Returns
         (js ''/src/main.js'') (js ''/src/main.js'') (wrap_contents (js ''define([]);''))
         (js ''/cache/0cc175b9c0f1b6a831c399e269772661-main.code'') None
   \<and> cachedDataCallback demo_env demo_opts (fst (init demo_env NodeScriptLoader_new)) Returns
         (js ''/src/main.js'') (js ''/src/main.js'') (wrap_contents (js ''define([]);''))
         (js ''/cache/0cc175b9c0f1b6a831c399e269772661-main.code'') None =
       ([Record NodeBeginEvaluatingScript (js ''/src/main.js''),
         NewScript (wrap_contents (js ''define([]);''))
           \<lparr>filename = js ''/src/main.js'', produceCachedData = Some True,
            cachedData_option = None\<rparr>,
         RunScript (js ''/src/main.js'') (js ''/src''),
         Record NodeEndEvaluatingScript (js ''/src/main.js''),
         Callback,
         SetTimeout
           (WriteFile (js ''/cache/0cc175b9c0f1b6a831c399e269772661-main.code'') (Buffer 1)) 1500],
        Returns)
   \<and> vm_Script stale_env (wrap_contents (js ''define([]);''))
       \<lparr>filename = js ''/src/main.js'', produceCachedData = Some False,
        cachedData_option = Some (Buffer 9)\<rparr>
     = Inr stale_script
   \<and> cachedDataRejected stale_script
   \<and> onNodeCachedDataError demo_opts
       \<lparr>errorCode = js ''cachedDataRejected'',
        path = js ''/cache/0cc175b9c0f1b6a831c399e269772661-main.code'', detail = None\<rparr>
     = Returns
   \<and> Node_history stale_env demo_opts NodeScriptLoader_new (js ''/src/main.js'') Returns
       (\<lambda>e. Returns) =
       [Record NodeBeginEvaluatingScript (js ''/src/main.js''),
        NewScript (wrap_contents (js ''define([]);''))
          \<lparr>filename = js ''/src/main.js'', produceCachedData = Some False,
           cachedData_option = Some (Buffer 9)\<rparr>,
        RunScript (js ''/src/main.js'') (js ''/src''),
        Record NodeEndEvaluatingScript (js ''/src/main.js''),
        Callback,
        OnNodeCachedDataError
          \<lparr>errorCode = js ''cachedDataRejected'',
           path = js ''/cache/0cc175b9c0f1b6a831c399e269772661-main.code'', detail = None\<rparr>,
        SetTimeout (Unlink (js ''/cache/0cc175b9c0f1b6a831c399e269772661-main.code'')) 1500,
        FsUnlink (js ''/cache/0cc175b9c0f1b6a831c399e269772661-main.code''),
        OnNodeCachedDataError
          \<lparr>errorCode = js ''unlink'',
           path = js ''/cache/0cc175b9c0f1b6a831c399e269772661-main.code'',
           detail = Some (JSVal 13)\<rparr>]"
proof -
  let ?ready = "fst (init demo_env NodeScriptLoader_new)"
  have m: "vm_module ?ready" "path_module ?ready"
    by (simp_all add: init_def NodeScriptLoader_new_def demo_env_def js_def)
  have c1: "vm_Script demo_env (wrap_contents (js ''define([]);''))
     \<lparr>filename = js ''/src/main.js'', produceCachedData = Some (None = (None :: Buffer option)),
      cachedData_option = None\<rparr> = Inr cold_script"
    by (simp add: demo_env_def)
  have r1: "runInThisContext cold_script
     \<lparr>filename = js ''/src/main.js'', produceCachedData = Some (None = (None :: Buffer option)),
      cachedData_option = None\<rparr> = Returns" "r_call cold_script = Returns"
    by (simp_all add: cold_script_def)
  have f1: "cachedDataRejected cold_script \<longrightarrow>
      onNodeCachedDataError demo_opts
        \<lparr>errorCode = js ''cachedDataRejected'',
         path = js ''/cache/0cc175b9c0f1b6a831c399e269772661-main.code'', detail = None\<rparr> =
      Returns"
    by (simp add: demo_opts_def)
  have c2: "vm_Script stale_env (wrap_contents (js ''define([]);''))
     \<lparr>filename = js ''/src/main.js'', produceCachedData = Some (Some (Buffer 9) = None),
      cachedData_option = Some (Buffer 9)\<rparr> = Inr stale_script"
    by (simp add: stale_env_def demo_env_def)
  have r2: "runInThisContext stale_script
     \<lparr>filename = js ''/src/main.js'', produceCachedData = Some (Some (Buffer 9) = None),
      cachedData_option = Some (Buffer 9)\<rparr> = Returns" "r_call stale_script = Returns"
    by (simp_all add: stale_script_def)
  have f2: "cachedDataRejected stale_script \<longrightarrow>
      onNodeCachedDataError demo_opts
        \<lparr>errorCode = js ''cachedDataRejected'',
         path = js ''/cache/0cc175b9c0f1b6a831c399e269772661-main.code'', detail = None\<rparr> =
      Returns"
    by (simp add: demo_opts_def)
  have m2: "vm_module (fst (init stale_env NodeScriptLoader_new))"
    "path_module (fst (init stale_env NodeScriptLoader_new))"
    by (simp_all add: init_def NodeScriptLoader_new_def stale_env_def demo_env_def js_def)
  have load1: "snd (Node_load demo_env demo_opts NodeScriptLoader_new (js ''/src/main.js'')
        Returns (\<lambda>e. Returns)) =
      cachedDataCallback demo_env demo_opts ?ready Returns
        (js ''/src/main.js'') (js ''/src/main.js'') (wrap_contents (js ''define([]);''))
        (js ''/cache/0cc175b9c0f1b6a831c399e269772661-main.code'') None"
    by (simp add: Node_load_def init_def NodeScriptLoader_new_def demo_env_def demo_opts_def
        getCachedDataPath_def replace_js_def js_def Let_def)
  have load2: "snd (Node_load stale_env demo_opts NodeScriptLoader_new (js ''/src/main.js'')
        Returns (\<lambda>e. Returns)) =
      cachedDataCallback stale_env demo_opts (fst (init stale_env NodeScriptLoader_new)) Returns
        (js ''/src/main.js'') (js ''/src/main.js'') (wrap_contents (js ''define([]);''))
        (js ''/cache/0cc175b9c0f1b6a831c399e269772661-main.code'') (Some (Buffer 9))"
    by (simp add: Node_load_def init_def NodeScriptLoader_new_def stale_env_def demo_env_def
        demo_opts_def getCachedDataPath_def replace_js_def js_def Let_def)
  have dir: "path_dirname demo_env (js ''/src/main.js'') = js ''/src''"
    "path_dirname stale_env (js ''/src/main.js'') = js ''/src''"
    by (simp_all add: stale_env_def demo_env_def js_def)
  have t: "nodeCachedDataWriteDelay demo_opts +
      of_int \<lceil>Math_random demo_env * nodeCachedDataWriteDelay demo_opts\<rceil> = 1500"
    "nodeCachedDataWriteDelay demo_opts +
      of_int \<lceil>Math_random stale_env * nodeCachedDataWriteDelay demo_opts\<rceil> = 1500"
    by (simp_all add: stale_env_def demo_env_def demo_opts_def ceiling_eq_iff)
  have flags: "cachedDataProduced cold_script" "\<not> cachedDataRejected cold_script"
    "cachedDataRejected stale_script" "cachedData cold_script = Buffer 1"
    by (simp_all add: cold_script_def stale_script_def)
  have u: "fs_unlink stale_env (js ''/cache/0cc175b9c0f1b6a831c399e269772661-main.code'') =
      Some (JSVal 13)"
    by (simp add: stale_env_def demo_env_def)
  have hook: "onNodeCachedDataError demo_opts
       \<lparr>errorCode = js ''cachedDataRejected'',
        path = js ''/cache/0cc175b9c0f1b6a831c399e269772661-main.code'', detail = None\<rparr>
     = Returns"
    by (simp add: demo_opts_def)
  note one = cache_action_follows_flags [OF m c1 r1 refl f1,
      where scriptSrc = "js ''/src/main.js''"]
  note two = cache_action_follows_flags [OF m2 c2 r2 refl f2,
      where scriptSrc = "js ''/src/main.js''"]
  show ?thesis
    using m c1 r1 c2 hook one two
    unfolding Node_history_def load1 load2
    by (simp add: flags dir t u with_timers_def)
qed

text \<open>
  Without the hypothesis on the success callback the claim fails: when \<open>callback()\<close>
  throws at line 266, the exception leaves the function before the flags are looked at,
  and no cache file is written although the script has \<open>cachedDataProduced\<close>.
\<close>

theorem cache_action_skipped_when_callback_throws:
  "vm_Script demo_env (wrap_contents (js ''define([]);''))
       \<lparr>filename = js ''/src/main.js'', produceCachedData = Some True, cachedData_option = None\<rparr>
     = Inr cold_script
   \<and> cachedDataProduced cold_script
   \<and> snd (Node_load demo_env demo_opts NodeScriptLoader_new (js ''/src/main.js'')
            (Throws (JSVal 9)) (\<lambda>e. Returns)) =
       ([Record NodeBeginEvaluatingScript (js ''/src/main.js''),
         NewScript (wrap_contents (js ''define([]);''))
           \<lparr>filename = js ''/src/main.js'', produceCachedData = Some True,
            cachedData_option = None\<rparr>,
         RunScript (js ''/src/main.js'') (js ''/src''),
         Record NodeEndEvaluatingScript (js ''/src/main.js''),
         Callback],
        Throws (JSVal 9))
   \<and> Node_history demo_env demo_opts NodeScriptLoader_new (js ''/src/main.js'')
         (Throws (JSVal 9)) (\<lambda>e. Returns) =
       [Record NodeBeginEvaluatingScript (js ''/src/main.js''),
        NewScript (wrap_contents (js ''define([]);''))
          \<lparr>filename = js ''/src/main.js'', produceCachedData = Some True,
           cachedData_option = None\<rparr>,
        RunScript (js ''/src/main.js'') (js ''/src''),
        Record NodeEndEvaluatingScript (js ''/src/main.js''),
        Callback]"
  by (simp add: Node_history_def with_timers_def Node_load_def init_def NodeScriptLoader_new_def
      cachedDataCallback_def loadAndEvalScript_def seq_def demo_env_def demo_opts_def
      cold_script_def getCachedDataPath_def replace_js_def js_def Let_def)

text \<open>
  C4. Let the second \<open>fs.readFile\<close> callback compile the script and run it without an
  exception, on a loader that holds its \<open>vm\<close> and \<open>path\<close> modules. In its history,
  timers included, and however the success callback and the hook end: what comes before the success callback is exactly the evaluation (the
  recorder's begin event, the compilation, the run of the script, the recorder's end
  event), so no cache action comes before it; the success callback is called exactly
  once; everything after it is a cache action (hook call, timer, unlink, write); the
  failure callback is never called; and an unlink or a write that fails is reported to
  \<open>onNodeCachedDataError\<close> with its error.
\<close>

theorem success_reported_before_cache_actions:
  assumes modules: "vm_module this" "path_module this"
    and compiled:
      "vm_Script env contents
         \<lparr>filename = vmScriptSrc, produceCachedData = Some (data = None),
          cachedData_option = data\<rparr> = Inr script"
    and ran:
      "runInThisContext script
         \<lparr>filename = vmScriptSrc, produceCachedData = Some (data = None),
          cachedData_option = data\<rparr> = Returns"
      "r_call script = Returns"
  shows "(let h = with_timers env
                    (fst (cachedDataCallback env opts this cb scriptSrc vmScriptSrc contents
                            cachedDataPath data))
          in before_callback h =
               [Record NodeBeginEvaluatingScript scriptSrc,
                NewScript contents
                  \<lparr>filename = vmScriptSrc, produceCachedData = Some (data = None),
                   cachedData_option = data\<rparr>,
                RunScript vmScriptSrc (path_dirname env scriptSrc),
                Record NodeEndEvaluatingScript scriptSrc]
             \<and> count_list h Callback = 1
             \<and> (\<forall>x\<in>set (after_callback h). is_cache_action x)
             \<and> (\<forall>x\<in>set h. \<not> is_Errorback x)
             \<and> (\<forall>p err. FsUnlink p \<in> set h \<and> fs_unlink env p = Some err \<longrightarrow>
                   OnNodeCachedDataError
                     \<lparr>errorCode = js ''unlink'', path = p, detail = Some err\<rparr>
                   \<in> set (after_callback h))
             \<and> (\<forall>p d err. FsWriteFile p d \<in> set h \<and> fs_writeFile env p d = Some err \<longrightarrow>
                   OnNodeCachedDataError
                     \<lparr>errorCode = js ''writeFile'', path = p, detail = Some err\<rparr>
                   \<in> set (after_callback h)))"
proof -
  let ?options = "\<lparr>filename = vmScriptSrc, produceCachedData = Some (data = None),
                   cachedData_option = data\<rparr>"
  let ?es = "[Record NodeBeginEvaluatingScript scriptSrc, NewScript contents ?options,
              RunScript vmScriptSrc (path_dirname env scriptSrc),
              Record NodeEndEvaluatingScript scriptSrc]"
  let ?run = "cachedDataCallback env opts this cb scriptSrc vmScriptSrc contents cachedDataPath data"
  let ?rejected = "\<lparr>errorCode = js ''cachedDataRejected'', path = cachedDataPath, detail = None\<rparr>"
  let ?t = "nodeCachedDataWriteDelay opts + of_int \<lceil>Math_random env * nodeCachedDataWriteDelay opts\<rceil>"
  note run = cachedDataCallback_ran [OF loadAndEvalScript_ran [OF modules compiled ran],
      where scriptSrc = scriptSrc and opts = opts and cachedDataPath = cachedDataPath
        and cb = cb]
  have "fst ?run = ?es @ Callback # []
      \<or> fst ?run = ?es @ Callback # [OnNodeCachedDataError ?rejected]
      \<or> fst ?run = ?es @ Callback #
            [OnNodeCachedDataError ?rejected, SetTimeout (Unlink cachedDataPath) ?t]
      \<or> fst ?run = ?es @ Callback #
            [SetTimeout (WriteFile cachedDataPath (cachedData script)) ?t]"
    unfolding run by (simp split: completion.splits)
  then consider
      (quiet) "fst ?run = ?es @ Callback # []"
    | (hook) "fst ?run = ?es @ Callback # [OnNodeCachedDataError ?rejected]"
    | (unlink) "fst ?run = ?es @ Callback #
                  [OnNodeCachedDataError ?rejected, SetTimeout (Unlink cachedDataPath) ?t]"
    | (stores) "fst ?run = ?es @ Callback #
                  [SetTimeout (WriteFile cachedDataPath (cachedData script)) ?t]"
    by blast
  then show ?thesis
  proof cases
    case quiet
    have h: "with_timers env (fst ?run) = ?es @ Callback # []"
      unfolding quiet by (simp add: with_timers_def)
    show ?thesis
      unfolding Let_def h
      by (simp add: before_callback_def after_callback_def)
  next
    case hook
    have h: "with_timers env (fst ?run) = ?es @ Callback # [OnNodeCachedDataError ?rejected]"
      unfolding hook by (simp add: with_timers_def)
    show ?thesis
      unfolding Let_def h
      by (simp add: before_callback_def after_callback_def)
  next
    case unlink
    have h: "with_timers env (fst ?run) =
        ?es @ Callback # ([OnNodeCachedDataError ?rejected, SetTimeout (Unlink cachedDataPath) ?t]
          @ fire env (Unlink cachedDataPath))"
      unfolding unlink by (simp add: with_timers_def)
    show ?thesis
      unfolding Let_def h
      by (auto simp: before_callback_def after_callback_def split: option.splits)
  next
    case stores
    have h: "with_timers env (fst ?run) =
        ?es @ Callback # ([SetTimeout (WriteFile cachedDataPath (cachedData script)) ?t]
          @ fire env (WriteFile cachedDataPath (cachedData script)))"
      unfolding stores by (simp add: with_timers_def)
    show ?thesis
      unfolding Let_def h
      by (auto simp: before_callback_def after_callback_def split: option.splits)
  qed
qed

theorem success_reported_before_cache_actions_witness:
  "vm_module (fst (init demo_env NodeScriptLoader_new))
   \<and> path_module (fst (init demo_env NodeScriptLoader_new))
   \<and> vm_Script demo_env (wrap_contents (js ''define([]);''))
       \<lparr>filename = js ''/src/main.js'', produceCachedData = Some True, cachedData_option = None\<rparr>
     = Inr cold_script
   \<and> runInThisContext cold_script
       \<lparr>filename = js ''/src/main.js'', produceCachedData = Some True, cachedData_option = None\<rparr>
     = Returns
   \<and> r_call cold_script = Returns
   \<and> snd (Node_load demo_env demo_opts NodeScriptLoader_new (js ''/src/main.js'') Returns
            (\<lambda>e. Returns)) =
       cachedDataCallback demo_env demo_opts (fst (init demo_env NodeScriptLoader_new)) Returns
         (js ''/src/main.js'') (js ''/src/main.js'') (wrap_contents (js ''define([]);''))
         (js ''/cache/0cc175b9c0f1b6a831c399e269772661-main.code'') None
   \<and> Node_history demo_env demo_opts NodeScriptLoader_new (js ''/src/main.js'') Returns
       (\<lambda>e. Returns) =
       [Record NodeBeginEvaluatingScript (js ''/src/main.js''),
        NewScript (wrap_contents (js ''define([]);''))
          \<lparr>filename = js ''/src/main.js'', produceCachedData = Some True,
           cachedData_option = None\<rparr>,
        RunScript (js ''/src/main.js'') (js ''/src''),
        Record NodeEndEvaluatingScript (js ''/src/main.js''),
        Callback,
        SetTimeout
          (WriteFile (js ''/cache/0cc175b9c0f1b6a831c399e269772661-main.code'') (Buffer 1)) 1500,
        FsWriteFile (js ''/cache/0cc175b9c0f1b6a831c399e269772661-main.code'') (Buffer 1),
        OnNodeCachedDataError
          \<lparr>errorCode = js ''writeFile'',
           path = js ''/cache/0cc175b9c0f1b6a831c399e269772661-main.code'',
           detail = Some (JSVal 28)\<rparr>]
   \<and> fs_writeFile demo_env (js ''/cache/0cc175b9c0f1b6a831c399e269772661-main.code'') (Buffer 1) =
       Some (JSVal 28)"
proof -
  let ?ready = "fst (init demo_env NodeScriptLoader_new)"
  have m: "vm_module ?ready" "path_module ?ready"
    by (simp_all add: init_def NodeScriptLoader_new_def demo_env_def js_def)
  have c1: "vm_Script demo_env (wrap_contents (js ''define([]);''))
     \<lparr>filename = js ''/src/main.js'', produceCachedData = Some (None = (None :: Buffer option)),
      cachedData_option = None\<rparr> = Inr cold_script"
    by (simp add: demo_env_def)
  have r1: "runInThisContext cold_script
     \<lparr>filename = js ''/src/main.js'', produceCachedData = Some (None = (None :: Buffer option)),
      cachedData_option = None\<rparr> = Returns" "r_call cold_script = Returns"
    by (simp_all add: cold_script_def)
  have load1: "snd (Node_load demo_env demo_opts NodeScriptLoader_new (js ''/src/main.js'')
        Returns (\<lambda>e. Returns)) =
      cachedDataCallback demo_env demo_opts ?ready Returns
        (js ''/src/main.js'') (js ''/src/main.js'') (wrap_contents (js ''define([]);''))
        (js ''/cache/0cc175b9c0f1b6a831c399e269772661-main.code'') None"
    by (simp add: Node_load_def init_def NodeScriptLoader_new_def demo_env_def demo_opts_def
        getCachedDataPath_def replace_js_def js_def Let_def)
  have h: "Node_history demo_env demo_opts NodeScriptLoader_new (js ''/src/main.js'') Returns
       (\<lambda>e. Returns) =
       [Record NodeBeginEvaluatingScript (js ''/src/main.js''),
        NewScript (wrap_contents (js ''define([]);''))
          \<lparr>filename = js ''/src/main.js'', produceCachedData = Some True,
           cachedData_option = None\<rparr>,
        RunScript (js ''/src/main.js'') (js ''/src''),
        Record NodeEndEvaluatingScript (js ''/src/main.js''),
        Callback,
        SetTimeout
          (WriteFile (js ''/cache/0cc175b9c0f1b6a831c399e269772661-main.code'') (Buffer 1)) 1500,
        FsWriteFile (js ''/cache/0cc175b9c0f1b6a831c399e269772661-main.code'') (Buffer 1),
        OnNodeCachedDataError
          \<lparr>errorCode = js ''writeFile'',
           path = js ''/cache/0cc175b9c0f1b6a831c399e269772661-main.code'',
           detail = Some (JSVal 28)\<rparr>]"
    by (simp add: Node_history_def with_timers_def Node_load_def init_def NodeScriptLoader_new_def
        cachedDataCallback_def loadAndEvalScript_def seq_def runSoon_def demo_env_def
        demo_opts_def cold_script_def getCachedDataPath_def replace_js_def js_def ceiling_eq_iff
        Let_def)
  have w: "fs_writeFile demo_env (js ''/cache/0cc175b9c0f1b6a831c399e269772661-main.code'')
      (Buffer 1) = Some (JSVal 28)"
    by (simp add: demo_env_def)
  show ?thesis
    using m c1 r1 load1 h w
      success_reported_before_cache_actions [OF m c1 r1,
        where opts = demo_opts and scriptSrc = "js ''/src/main.js''" and cb = Returns
          and cachedDataPath = "js ''/cache/0cc175b9c0f1b6a831c399e269772661-main.code''"]
    by simp
qed

end
